theory Spec2Isabelle
  imports Complex_Main
begin

section \<open>JavaScript values\<close>

text \<open>
  The values that flow through the relationship layer. A luxon \<open>DateTime\<close> is a value of
  an external library: it is represented by the factory call that produced it
  (\<open>DateTime.fromSQL(s)\<close> or \<open>DateTime.fromJSDate(d)\<close>). A native \<open>Date\<close> carries its
  epoch milliseconds. Numbers in this layer are keys, counts and page numbers and are
  modelled as mathematical integers.
\<close>

datatype luxon = FromSQL string | FromJSDate int

datatype jsval =
    Undefined
  | Null
  | JBool bool
  | Num int
  | Str string
  | NativeDate int
  | Luxon luxon
  | Arr "jsval list"

text \<open>\<open>!v\<close>: the values JavaScript treats as false in a condition.\<close>

fun falsy :: "jsval \<Rightarrow> bool" where
  "falsy Undefined = True"
| "falsy Null = True"
| "falsy (JBool b) = (\<not> b)"
| "falsy (Num n) = (n = 0)"
| "falsy (Str s) = (s = [])"
| "falsy (NativeDate d) = False"
| "falsy (Luxon d) = False"
| "falsy (Arr vs) = False"

text \<open>
  The result of a division of two integers followed by \<open>Math.ceil\<close> and \<open>Math.max\<close>:
  an integer, or \<open>Infinity\<close> or \<open>NaN\<close> when the divisor is zero.
\<close>

datatype jsnum = Fin int | PosInfinity | NaN

section \<open>SimplePaginator\<close>

text \<open>
  The class \<open>SimplePaginator\<close>: its private fields \<open>qs\<close> and \<open>url\<close>, the row slice, the
  constructor arguments and the read-only fields derived from them. The query-string
  object is an association list in insertion order (JavaScript moves keys that look like
  array indices to the front; no property below depends on the order).
\<close>

record 'r SimplePaginator =
  qs :: "(string \<times> jsval) list"
  url :: string
  rows :: "'r list"
  firstPage :: int
  isEmpty :: bool
  total :: int
  hasTotal :: bool
  lastPage :: jsnum
  hasMorePages :: bool
  hasPages :: bool
  perPage :: int
  currentPage :: int

text \<open>\<open>Math.max(Math.ceil(total / perPage), 1)\<close>, with JavaScript's division by zero.\<close>

definition lastPage_of :: "int \<Rightarrow> int \<Rightarrow> jsnum" where
  "lastPage_of t pp =
     (if pp = 0 then (if 0 < t then PosInfinity else if t = 0 then NaN else Fin 1)
      else Fin (max \<lceil>real_of_int t / real_of_int pp\<rceil> 1))"

text \<open>\<open>a > b\<close> and \<open>a !== b\<close> for a computed number \<open>a\<close> and an integer \<open>b\<close>.\<close>

fun js_gt :: "jsnum \<Rightarrow> int \<Rightarrow> bool" where
  "js_gt (Fin a) b = (b < a)"
| "js_gt PosInfinity b = True"
| "js_gt NaN b = False"

fun js_neq :: "jsnum \<Rightarrow> int \<Rightarrow> bool" where
  "js_neq (Fin a) b = (a \<noteq> b)"
| "js_neq PosInfinity b = True"
| "js_neq NaN b = True"

text \<open>The constructor together with the field initialisers of the class.\<close>

definition new_SimplePaginator :: "int \<Rightarrow> int \<Rightarrow> int \<Rightarrow> 'r list \<Rightarrow> 'r SimplePaginator" where
  "new_SimplePaginator totalNumber pp cp rs =
     \<lparr> qs = [], url = ''/'', rows = rs, firstPage = 1,
       isEmpty = (length rs = 0),
       total = totalNumber,
       hasTotal = (0 < totalNumber),
       lastPage = lastPage_of totalNumber pp,
       hasMorePages = js_gt (lastPage_of totalNumber pp) cp,
       hasPages = js_neq (lastPage_of totalNumber pp) 1,
       perPage = pp, currentPage = cp \<rparr>"



text \<open>
  \<open>obj[k] = v\<close> on an object in insertion order: an existing key keeps its place,
  a new key goes last. \<open>Object.assign(target, source)\<close> assigns the source's entries
  in order.
\<close>

fun assign_key :: "string \<Rightarrow> jsval \<Rightarrow> (string \<times> jsval) list \<Rightarrow> (string \<times> jsval) list" where
  "assign_key k v [] = [(k, v)]"
| "assign_key k v ((k', v') # ps) =
     (if k' = k then (k, v) # ps else (k', v') # assign_key k v ps)"

definition Object_assign :: "(string \<times> jsval) list \<Rightarrow> (string \<times> jsval) list \<Rightarrow> (string \<times> jsval) list" where
  "Object_assign target source = foldl (\<lambda>acc (k, v). assign_key k v acc) target source"

text \<open>
  The object \<open>getUrl\<close> serialises: \<open>Object.assign({}, this.qs, { page: page < 1 ? 1 : page })\<close>.
\<close>

definition getUrl_query :: "'r SimplePaginator \<Rightarrow> int \<Rightarrow> (string \<times> jsval) list" where
  "getUrl_query p page =
     Object_assign (Object_assign [] (qs p)) [(''page'', Num (if page < 1 then 1 else page))]"

text \<open>
  \<open>getUrl\<close>. The serialiser \<open>stringify\<close> belongs to the external package \<open>qs\<close> and is a
  parameter.
\<close>

definition getUrl :: "((string \<times> jsval) list \<Rightarrow> string) \<Rightarrow> 'r SimplePaginator \<Rightarrow> int \<Rightarrow> string" where
  "getUrl stringify p page = url p @ ''?'' @ stringify (getUrl_query p page)"

text \<open>\<open>null\<close> is \<open>None\<close>.\<close>

definition getNextPageUrl :: "((string \<times> jsval) list \<Rightarrow> string) \<Rightarrow> 'r SimplePaginator \<Rightarrow> string option" where
  "getNextPageUrl stringify p =
     (if hasMorePages p then Some (getUrl stringify p (currentPage p + 1)) else None)"

definition getPreviousPageUrl :: "((string \<times> jsval) list \<Rightarrow> string) \<Rightarrow> 'r SimplePaginator \<Rightarrow> string option" where
  "getPreviousPageUrl stringify p =
     (if 1 < currentPage p then Some (getUrl stringify p (currentPage p - 1)) else None)"

text \<open>
  \<open>getUrlsForRange\<close>: the loop \<open>for (let i = start; i <= end; i++)\<close>, with the array
  \<open>urls\<close> as accumulator. An entry is the URL, the page and whether the page is the
  current one.
\<close>

function getUrlsForRange_loop ::
  "((string \<times> jsval) list \<Rightarrow> string) \<Rightarrow> 'r SimplePaginator \<Rightarrow> int \<Rightarrow> int
     \<Rightarrow> (string \<times> int \<times> bool) list \<Rightarrow> (string \<times> int \<times> bool) list" where
  "getUrlsForRange_loop stringify p i end_page urls =
     (if i \<le> end_page
      then getUrlsForRange_loop stringify p (i + 1) end_page
             (urls @ [(getUrl stringify p i, i, i = currentPage p)])
      else urls)"
  by pat_completeness auto
termination
  by (relation "measure (\<lambda>(stringify, p, i, end_page, urls). nat (end_page + 1 - i))") auto

declare getUrlsForRange_loop.simps [simp del]

definition getUrlsForRange ::
  "((string \<times> jsval) list \<Rightarrow> string) \<Rightarrow> 'r SimplePaginator \<Rightarrow> int \<Rightarrow> int \<Rightarrow> (string \<times> int \<times> bool) list" where
  "getUrlsForRange stringify p start end_page = getUrlsForRange_loop stringify p start end_page []"

section \<open>Rows, relations and the query state\<close>

text \<open>
  A model instance (\<open>LucidRow\<close>): its attributes, the side map \<open>$extras\<close> and the
  transaction it has adopted (\<open>$trx\<close>, the identifier of a transaction client).
\<close>

record row =
  attributes :: "string \<rightharpoonup> jsval"
  extras :: "string \<rightharpoonup> jsval"
  trx :: "nat option"

text \<open>The parent of a relationship query: \<open>LucidRow | LucidRow[]\<close>.\<close>

datatype parent = One row | Many "row list"

text \<open>
  The \<open>ManyToMany\<close> relation descriptor, as far as the query builder reads it.
  \<open>relatedModel_table\<close> is \<open>relation.relatedModel().table\<close>; the method \<open>pivotAlias\<close>
  is declared outside the files at hand and is a field of the descriptor.
\<close>

record relation =
  relationName :: string
  pivotTable :: string
  pivotForeignKey :: string
  pivotRelatedForeignKey :: string
  localKey :: string
  relatedKeyColumnName :: string
  pivotColumns :: "string list"
  pivotTimestamps :: "string list"
  relatedModel_table :: string
  pivotAlias :: "string \<Rightarrow> string"

datatype error = TypeError string | Error string

text \<open>
  The first argument of a predicate method is typed \<open>any\<close>: a column name, an array of
  column names, a callback (identified by a number) or an object of column/value pairs.
\<close>

datatype key =
    Col string
  | ColArr "string list"
  | Callback nat
  | Clauses "(string \<times> jsval) list"

text \<open>An entry of a select list: a column name, or any other value (a raw query, a sub query).\<close>

datatype column = ColName string | RawColumn nat | TransformedValue nat

text \<open>
  Modelled from the spec: the generic query builder under the relationship builder
  (the base class and the low-level query) is an external collaborator, section 6:
  "table selection, join, predicate clauses, ... select/order/limit/offset". It is
  represented by the statements it has received, in order: the table selection
  (\<open>from\<close>), the select lists (\<open>knexQuery.select\<close>), the joins (\<open>innerJoin\<close>), the
  predicate calls (the name of the generic method, the key and the remaining
  arguments) and the grouping of the existing predicates (\<open>wrapExisting\<close>).
\<close>

datatype statement =
    From string
  | Select "column list"
  | InnerJoin string string string
  | Predicate string key "jsval list"
  | WrapExisting

text \<open>
  The low-level query: the action it performs (read by \<open>queryAction()\<close>), whether it has
  aggregates (read by \<open>hasAggregates\<close>) and the statements.
\<close>

record knex =
  action :: string
  aggregates :: bool
  statements :: "statement list"

text \<open>
  Calls to methods of the base class that configure the builder itself (\<open>pojo\<close>,
  \<open>applyQueryFlags\<close>), recorded in order. The builder also carries the base class's
  preload flag, its debug and reporter configuration and its \<open>resolveKey\<close>.
\<close>

datatype base_call = Pojo | ApplyQueryFlags

record builder =
  pivotQuery :: bool
  cherryPickingKeys :: bool
  appliedConstraints :: bool
  isRelatedPreloadQuery :: bool
  debugQueries :: bool
  customReporterData :: jsval
  parent :: parent
  relation :: relation
  knexQuery :: knex
  resolveKey :: "string \<Rightarrow> string"
  base_calls :: "base_call list"

definition relatedTable :: "builder \<Rightarrow> string" where
  "relatedTable q = relatedModel_table (relation q)"

definition isPivotOnlyQuery :: "builder \<Rightarrow> bool" where
  "isPivotOnlyQuery q = pivotQuery q"

definition queryAction :: "builder \<Rightarrow> string" where
  "queryAction q = action (knexQuery q)"

definition hasAggregates :: "builder \<Rightarrow> bool" where
  "hasAggregates q = aggregates (knexQuery q)"

definition push :: "statement \<Rightarrow> builder \<Rightarrow> builder" where
  "push s q = q\<lparr>knexQuery := (knexQuery q)\<lparr>statements := statements (knexQuery q) @ [s]\<rparr>\<rparr>"

definition pojo :: "builder \<Rightarrow> builder" where
  "pojo q = q\<lparr>base_calls := base_calls q @ [Pojo]\<rparr>"

text \<open>The setter of \<open>isPivotOnlyQuery\<close>.\<close>

definition set_isPivotOnlyQuery :: "bool \<Rightarrow> builder \<Rightarrow> builder" where
  "set_isPivotOnlyQuery pivotOnly q =
     (let q1 = q\<lparr>pivotQuery := pivotOnly\<rparr> in if pivotQuery q1 then pojo q1 else q1)"

text \<open>
  The constructor: the field initialisers of the class; the flags of the base class
  start unset.
\<close>

definition new_ManyToManyQueryBuilder :: "knex \<Rightarrow> (string \<Rightarrow> string) \<Rightarrow> parent \<Rightarrow> relation \<Rightarrow> builder" where
  "new_ManyToManyQueryBuilder k rk par rel =
     \<lparr> pivotQuery = False, cherryPickingKeys = False, appliedConstraints = False,
       isRelatedPreloadQuery = False, debugQueries = False, customReporterData = Undefined,
       parent = par, relation = rel, knexQuery = k, resolveKey = rk, base_calls = [] \<rparr>"

subsection \<open>Column prefixing\<close>

text \<open>
  \<open>prefixRelatedTable\<close> at a string, as its signature declares, and at any value a
  caller typed \<open>any\<close> may hand over: an array answers \<open>includes\<close> by membership and is
  joined with commas inside a template string; a callback or an object has no
  \<open>includes\<close> method, and the call raises a \<open>TypeError\<close>.
\<close>

definition prefixRelatedTable :: "builder \<Rightarrow> string \<Rightarrow> string" where
  "prefixRelatedTable q column =
     (if CHR ''.'' \<in> set column then column else relatedTable q @ ''.'' @ column)"

fun join_commas :: "string list \<Rightarrow> string" where
  "join_commas [] = []"
| "join_commas [c] = c"
| "join_commas (c # d # cs) = c @ '','' @ join_commas (d # cs)"

fun prefixRelatedTable_any :: "builder \<Rightarrow> key \<Rightarrow> error + key" where
  "prefixRelatedTable_any q (Col c) = Inr (Col (prefixRelatedTable q c))"
| "prefixRelatedTable_any q (ColArr cs) =
     Inr (if ''.'' \<in> set cs then ColArr cs else Col (relatedTable q @ ''.'' @ join_commas cs))"
| "prefixRelatedTable_any q (Callback f) = Inl (TypeError ''column.includes is not a function'')"
| "prefixRelatedTable_any q (Clauses kv) = Inl (TypeError ''column.includes is not a function'')"

text \<open>
  \<open>PivotHelpers\<close>: whether the bound query is a \<open>ManyToManySubQueryBuilder\<close>, and whether
  selected pivot columns are aliased. The helper of a \<open>ManyToManyQueryBuilder\<close> is
  \<open>new PivotHelpers(this, true)\<close>. The helper's methods take the state of the bound
  query; of a sub query only the relation is read.
\<close>

record pivotHelpers =
  subQuery :: bool
  aliasSelectColumns :: bool

definition pivotHelpers_of_builder :: pivotHelpers where
  "pivotHelpers_of_builder = \<lparr> subQuery = False, aliasSelectColumns = True \<rparr>"

definition prefixPivotTable :: "pivotHelpers \<Rightarrow> builder \<Rightarrow> string \<Rightarrow> string" where
  "prefixPivotTable h q column =
     (if CHR ''.'' \<in> set column then column
      else if subQuery h then pivotTable (relation q) @ ''.'' @ column
      else if isPivotOnlyQuery q then column
      else pivotTable (relation q) @ ''.'' @ column)"

fun prefixPivotTable_any :: "pivotHelpers \<Rightarrow> builder \<Rightarrow> key \<Rightarrow> error + key" where
  "prefixPivotTable_any h q (Col c) = Inr (Col (prefixPivotTable h q c))"
| "prefixPivotTable_any h q (ColArr cs) =
     Inr (if ''.'' \<in> set cs then ColArr cs
          else if subQuery h then Col (pivotTable (relation q) @ ''.'' @ join_commas cs)
          else if isPivotOnlyQuery q then ColArr cs
          else Col (pivotTable (relation q) @ ''.'' @ join_commas cs))"
| "prefixPivotTable_any h q (Callback f) = Inl (TypeError ''column.includes is not a function'')"
| "prefixPivotTable_any h q (Clauses kv) = Inl (TypeError ''column.includes is not a function'')"

subsection \<open>Predicate methods of the builder\<close>

text \<open>
  Modelled from the spec: the predicate methods of the base class (\<open>super.where\<close> and
  its siblings, section 6, "a generic query-builder capability: ... predicate clauses")
  are not in the files at hand; a call hands the statement to the generic builder.
\<close>

definition super_predicate :: "string \<Rightarrow> key \<Rightarrow> jsval list \<Rightarrow> builder \<Rightarrow> builder" where
  "super_predicate name k args q = push (Predicate name k args) q"

text \<open>
  \<open>where\<close>, \<open>orWhere\<close>, \<open>whereNot\<close>, \<open>orWhereNot\<close> and their siblings all have one
  body: \<open>return super.NAME(this.prefixRelatedTable(key), operator, value)\<close>. The method
  \<open>where\<close> is \<open>whereQ\<close> here, since \<open>where\<close> is a keyword.
\<close>

definition where_family :: "string \<Rightarrow> builder \<Rightarrow> key \<Rightarrow> jsval \<Rightarrow> jsval \<Rightarrow> error + builder" where
  "where_family name q k operator val =
     (case prefixRelatedTable_any q k of
        Inl e \<Rightarrow> Inl e
      | Inr k' \<Rightarrow> Inr (super_predicate name k' [operator, val] q))"

definition whereIn_family :: "string \<Rightarrow> builder \<Rightarrow> key \<Rightarrow> jsval \<Rightarrow> error + builder" where
  "whereIn_family name q k val =
     (case prefixRelatedTable_any q k of
        Inl e \<Rightarrow> Inl e
      | Inr k' \<Rightarrow> Inr (super_predicate name k' [val] q))"

definition whereNull_family :: "string \<Rightarrow> builder \<Rightarrow> key \<Rightarrow> error + builder" where
  "whereNull_family name q k =
     (case prefixRelatedTable_any q k of
        Inl e \<Rightarrow> Inl e
      | Inr k' \<Rightarrow> Inr (super_predicate name k' [] q))"

definition whereQ :: "builder \<Rightarrow> key \<Rightarrow> jsval \<Rightarrow> jsval \<Rightarrow> error + builder" where
  "whereQ = where_family ''where''"

definition orWhere :: "builder \<Rightarrow> key \<Rightarrow> jsval \<Rightarrow> jsval \<Rightarrow> error + builder" where
  "orWhere = where_family ''orWhere''"

definition whereNot :: "builder \<Rightarrow> key \<Rightarrow> jsval \<Rightarrow> jsval \<Rightarrow> error + builder" where
  "whereNot = where_family ''whereNot''"

definition orWhereNot :: "builder \<Rightarrow> key \<Rightarrow> jsval \<Rightarrow> jsval \<Rightarrow> error + builder" where
  "orWhereNot = where_family ''orWhereNot''"

definition whereIn :: "builder \<Rightarrow> key \<Rightarrow> jsval \<Rightarrow> error + builder" where
  "whereIn = whereIn_family ''whereIn''"

definition whereNull :: "builder \<Rightarrow> key \<Rightarrow> error + builder" where
  "whereNull = whereNull_family ''whereNull''"

text \<open>An argument a call leaves out is \<open>undefined\<close> in the callee.\<close>

definition arg :: "jsval list \<Rightarrow> nat \<Rightarrow> jsval" where
  "arg args i = (if i < length args then args ! i else Undefined)"

text \<open>
  \<open>this.query[method](key, ...)\<close>: the property lookup on the bound
  \<open>ManyToManyQueryBuilder\<close> finds the builder's own method of that name.
\<close>

definition query_method :: "string \<Rightarrow> builder \<Rightarrow> key \<Rightarrow> jsval list \<Rightarrow> error + builder" where
  "query_method name q k args =
     (if name \<in> {''where'', ''orWhere'', ''whereNot'', ''orWhereNot''}
        then where_family name q k (arg args 0) (arg args 1)
      else if name \<in> {''whereIn'', ''orWhereIn'', ''whereNotIn'', ''orWhereNotIn''}
        then whereIn_family name q k (arg args 0)
      else whereNull_family name q k)"

subsection \<open>PivotHelpers\<close>

datatype variation = V_and | V_or | V_not | V_orNot

fun wherePivot_method :: "variation \<Rightarrow> string" where
  "wherePivot_method V_and = ''where''"
| "wherePivot_method V_or = ''orWhere''"
| "wherePivot_method V_not = ''whereNot''"
| "wherePivot_method V_orNot = ''orWhereNot''"

fun whereNullPivot_method :: "variation \<Rightarrow> string" where
  "whereNullPivot_method V_and = ''whereNull''"
| "whereNullPivot_method V_or = ''orWhereNull''"
| "whereNullPivot_method V_not = ''whereNotNull''"
| "whereNullPivot_method V_orNot = ''orWhereNotNull''"

fun whereInPivot_method :: "variation \<Rightarrow> string" where
  "whereInPivot_method V_and = ''whereIn''"
| "whereInPivot_method V_or = ''orWhereIn''"
| "whereInPivot_method V_not = ''whereNotIn''"
| "whereInPivot_method V_orNot = ''orWhereNotIn''"

text \<open>
  The key and the further arguments \<open>PivotHelpers.wherePivot\<close> hands to
  \<open>this.query[method]\<close>, by call shape.
\<close>

definition wherePivot_forwarded :: "pivotHelpers \<Rightarrow> builder \<Rightarrow> key \<Rightarrow> jsval \<Rightarrow> jsval \<Rightarrow> error + key \<times> jsval list" where
  "wherePivot_forwarded h q k operator val =
     (if val \<noteq> Undefined then
        (case prefixPivotTable_any h q k of Inl e \<Rightarrow> Inl e | Inr k' \<Rightarrow> Inr (k', [operator, val]))
      else if operator \<noteq> Undefined then
        (case prefixPivotTable_any h q k of Inl e \<Rightarrow> Inl e | Inr k' \<Rightarrow> Inr (k', [operator]))
      else Inr (k, []))"

definition PivotHelpers_wherePivot :: "pivotHelpers \<Rightarrow> builder \<Rightarrow> variation \<Rightarrow> key \<Rightarrow> jsval \<Rightarrow> jsval \<Rightarrow> error + builder" where
  "PivotHelpers_wherePivot h q v k operator val =
     (case wherePivot_forwarded h q k operator val of
        Inl e \<Rightarrow> Inl e
      | Inr (k', args) \<Rightarrow> query_method (wherePivot_method v) q k' args)"

definition PivotHelpers_whereNullPivot :: "pivotHelpers \<Rightarrow> builder \<Rightarrow> variation \<Rightarrow> key \<Rightarrow> error + builder" where
  "PivotHelpers_whereNullPivot h q v k =
     (case prefixPivotTable_any h q k of
        Inl e \<Rightarrow> Inl e
      | Inr k' \<Rightarrow> query_method (whereNullPivot_method v) q k' [])"

text \<open>In \<open>whereInPivot\<close> an array key is prefixed element by element.\<close>

definition whereInPivot_key :: "pivotHelpers \<Rightarrow> builder \<Rightarrow> key \<Rightarrow> error + key" where
  "whereInPivot_key h q k =
     (case k of
        ColArr cs \<Rightarrow> Inr (ColArr (map (prefixPivotTable h q) cs))
      | _ \<Rightarrow> prefixPivotTable_any h q k)"

definition PivotHelpers_whereInPivot :: "pivotHelpers \<Rightarrow> builder \<Rightarrow> variation \<Rightarrow> key \<Rightarrow> jsval \<Rightarrow> error + builder" where
  "PivotHelpers_whereInPivot h q v k val =
     (case whereInPivot_key h q k of
        Inl e \<Rightarrow> Inl e
      | Inr k' \<Rightarrow>
          (if val \<noteq> Undefined then query_method (whereInPivot_method v) q k' [val]
           else query_method (whereInPivot_method v) q k' []))"

definition PivotHelpers_pivotColumns :: "pivotHelpers \<Rightarrow> builder \<Rightarrow> string list \<Rightarrow> builder" where
  "PivotHelpers_pivotColumns h q columns =
     push (Select (map (\<lambda>column.
        if aliasSelectColumns h
        then ColName (prefixPivotTable h q column @ '' as '' @ pivotAlias (relation q) column)
        else ColName (prefixPivotTable h q column)) columns)) q"

subsection \<open>ManyToManyQueryBuilder\<close>

definition wherePivot :: "builder \<Rightarrow> key \<Rightarrow> jsval \<Rightarrow> jsval \<Rightarrow> error + builder" where
  "wherePivot q k operator val = PivotHelpers_wherePivot pivotHelpers_of_builder q V_and k operator val"

definition orWherePivot :: "builder \<Rightarrow> key \<Rightarrow> jsval \<Rightarrow> jsval \<Rightarrow> error + builder" where
  "orWherePivot q k operator val = PivotHelpers_wherePivot pivotHelpers_of_builder q V_or k operator val"

definition whereNotPivot :: "builder \<Rightarrow> key \<Rightarrow> jsval \<Rightarrow> jsval \<Rightarrow> error + builder" where
  "whereNotPivot q k operator val = PivotHelpers_wherePivot pivotHelpers_of_builder q V_not k operator val"

definition orWhereNotPivot :: "builder \<Rightarrow> key \<Rightarrow> jsval \<Rightarrow> jsval \<Rightarrow> error + builder" where
  "orWhereNotPivot q k operator val = PivotHelpers_wherePivot pivotHelpers_of_builder q V_orNot k operator val"

definition whereInPivot :: "builder \<Rightarrow> key \<Rightarrow> jsval \<Rightarrow> error + builder" where
  "whereInPivot q k val = PivotHelpers_whereInPivot pivotHelpers_of_builder q V_and k val"

definition whereNullPivot :: "builder \<Rightarrow> key \<Rightarrow> error + builder" where
  "whereNullPivot q k = PivotHelpers_whereNullPivot pivotHelpers_of_builder q V_and k"

definition pivotColumns_m :: "builder \<Rightarrow> string list \<Rightarrow> builder" where
  "pivotColumns_m q columns = PivotHelpers_pivotColumns pivotHelpers_of_builder q columns"

text \<open>
  \<open>transformRelatedTableColumns\<close>; \<open>resolveKey\<close> and \<open>transformValue\<close> belong to the
  base class: the first is a field of the state, the second marks the value it received.
\<close>

definition transformRelatedTableColumns :: "builder \<Rightarrow> column list \<Rightarrow> column list" where
  "transformRelatedTableColumns q columns =
     (if isPivotOnlyQuery q then columns
      else map (\<lambda>c. case c of
                       ColName s \<Rightarrow> ColName (prefixRelatedTable q (resolveKey q s))
                     | RawColumn r \<Rightarrow> TransformedValue r
                     | TransformedValue r \<Rightarrow> TransformedValue r) columns)"

definition select :: "builder \<Rightarrow> column list \<Rightarrow> builder" where
  "select q columns =
     (let q1 = q\<lparr>cherryPickingKeys := True\<rparr>
      in push (Select (transformRelatedTableColumns q1 columns)) q1)"

text \<open>
  Modelled from the spec: \<open>getValue\<close> and \<open>unique\<close> come from the \<open>utils\<close> module, which
  is not in the files at hand. Section 4.1, step 4: the pivot predicate compares with
  "parent.localKeyValue", or with the "deduplicated set of each parent row's
  localKeyValue". An attribute a row does not have reads as \<open>undefined\<close>; of equal
  values the first is kept.
\<close>

definition getValue :: "row \<Rightarrow> string \<Rightarrow> jsval" where
  "getValue model k = (case attributes model k of None \<Rightarrow> Undefined | Some v \<Rightarrow> v)"

definition unique :: "jsval list \<Rightarrow> jsval list" where
  "unique vs = rev (remdups (rev vs))"

definition addWhereConstraints :: "builder \<Rightarrow> error + builder" where
  "addWhereConstraints q =
     (case parent q of
        Many models \<Rightarrow>
          whereInPivot (push WrapExisting q) (Col (pivotForeignKey (relation q)))
            (Arr (unique (map (\<lambda>model. getValue model (localKey (relation q))) models)))
      | One model \<Rightarrow>
          wherePivot (push WrapExisting q) (Col (pivotForeignKey (relation q)))
            (getValue model (localKey (relation q))) Undefined)"

definition applyConstraints :: "builder \<Rightarrow> error + builder" where
  "applyConstraints q =
     (if appliedConstraints q then Inr q
      else
        let q1 = q\<lparr>appliedConstraints := True\<rparr> in
        if isPivotOnlyQuery q1 \<or> queryAction q1 \<in> {''delete'', ''update''}
        then addWhereConstraints (push (From (pivotTable (relation q1))) q1)
        else
          let q2 = (if \<not> hasAggregates q1
                    then (let q3 = (if \<not> cherryPickingKeys q1 then select q1 [ColName ''*''] else q1)
                          in pivotColumns_m q3
                               ([pivotForeignKey (relation q3), pivotRelatedForeignKey (relation q3)]
                                  @ pivotColumns (relation q3) @ pivotTimestamps (relation q3)))
                    else q1);
              q4 = push (InnerJoin (pivotTable (relation q2))
                          (relatedTable q2 @ ''.'' @ relatedKeyColumnName (relation q2))
                          (pivotTable (relation q2) @ ''.'' @ pivotRelatedForeignKey (relation q2))) q2
          in addWhereConstraints q4)"

text \<open>
  \<open>clone\<close> returns the state of the builder it was called on together with the new
  builder. \<open>knexQuery.clone()\<close> copies the low-level query; \<open>applyQueryFlags\<close>, \<open>debug\<close>
  and \<open>reporterData\<close> belong to the base class: the first is recorded on the new
  builder, the other two set its debug and reporter configuration.
\<close>

definition clone :: "builder \<Rightarrow> error + builder \<times> builder" where
  "clone q =
     (case applyConstraints q of
        Inl e \<Rightarrow> Inl e
      | Inr this \<Rightarrow>
          let c0 = new_ManyToManyQueryBuilder (knexQuery this) (resolveKey this) (parent this) (relation this);
              c1 = c0\<lparr>base_calls := base_calls c0 @ [ApplyQueryFlags]\<rparr>;
              c2 = set_isPivotOnlyQuery (isPivotOnlyQuery this) c1;
              c3 = c2\<lparr>cherryPickingKeys := cherryPickingKeys this\<rparr>;
              c4 = c3\<lparr>appliedConstraints := appliedConstraints this\<rparr>;
              c5 = c4\<lparr>isRelatedPreloadQuery := isRelatedPreloadQuery this\<rparr>;
              c6 = c5\<lparr>debugQueries := debugQueries this\<rparr>;
              c7 = c6\<lparr>customReporterData := customReporterData this\<rparr>
          in Inr (this, c7))"







subsection \<open>Row post-processing in \<open>exec\<close>\<close>

text \<open>The body of the \<open>forEach\<close> callback, for one aliased timestamp column of one row.\<close>

definition transform_timestamp :: "row \<Rightarrow> string \<Rightarrow> row" where
  "transform_timestamp r ts =
     (let timestampValue = (case extras r ts of None \<Rightarrow> Undefined | Some v \<Rightarrow> v) in
      if falsy timestampValue then r
      else
        let r1 = (case timestampValue of
                    Str s \<Rightarrow> r\<lparr>extras := (extras r)(ts \<mapsto> Luxon (FromSQL s))\<rparr>
                  | _ \<Rightarrow> r);
            r2 = (case timestampValue of
                    NativeDate d \<Rightarrow> r1\<lparr>extras := (extras r1)(ts \<mapsto> Luxon (FromJSDate d))\<rparr>
                  | _ \<Rightarrow> r1)
        in r2)"

text \<open>The row transformer \<open>exec\<close> registers, if the relation declares pivot timestamps.\<close>

definition exec_rowTransformer :: "builder \<Rightarrow> (row \<Rightarrow> row) option" where
  "exec_rowTransformer q =
     (let pts = map (pivotAlias (relation q)) (pivotTimestamps (relation q)) in
      if length pts \<noteq> 0 then Some (\<lambda>r. foldl transform_timestamp r pts) else None)"

text \<open>
  Modelled from the spec: \<open>super.exec\<close> is not in the files at hand. Section 4.1: the
  normalisation "must run once per row, after the underlying rows are fetched, before
  returning control to the caller". The rows the generic builder fetched are the second
  argument.
\<close>

definition exec :: "builder \<Rightarrow> row list \<Rightarrow> row list" where
  "exec q fetched =
     (case exec_rowTransformer q of None \<Rightarrow> fetched | Some f \<Rightarrow> map f fetched)"

section \<open>BelongsToQueryClient: associate\<close>

text \<open>The \<open>BelongsTo\<close> relation descriptor: the foreign key on the parent, the key on the related model.\<close>

record belongsTo =
  bt_foreignKey :: string
  bt_localKey :: string

text \<open>
  A transaction buffers the attribute sets written through it. The database holds the
  committed writes, the transactions by identifier and the next fresh identifier.
\<close>

datatype trx_state = Active | Committed | RolledBack

record transaction =
  writes :: "(string \<rightharpoonup> jsval) list"
  state :: trx_state

record database =
  committed :: "(string \<rightharpoonup> jsval) list"
  transactions :: "nat \<Rightarrow> transaction"
  next_trx :: nat




text \<open>
  Modelled from the spec: \<open>save()\<close> of a model instance is not in the files at hand.
  Section 6: "save() on a record (insert or update depending on record state)";
  section 4.3: persisting ensures the record "has a primary-key value". Whether the
  storage engine accepts the write, and the attributes it generates, are given from
  outside. A write goes through the transaction the row has adopted, or straight to the
  committed store when it has none. A failed save writes nothing.
\<close>

datatype save_result = Fails string | Persists "string \<rightharpoonup> jsval"

definition persist :: "nat option \<Rightarrow> (string \<rightharpoonup> jsval) \<Rightarrow> database \<Rightarrow> database" where
  "persist t attrs db =
     (case t of
        None \<Rightarrow> db\<lparr>committed := committed db @ [attrs]\<rparr>
      | Some i \<Rightarrow> db\<lparr>transactions := (transactions db)
                        (i := (transactions db i)\<lparr>writes := writes (transactions db i) @ [attrs]\<rparr>)\<rparr>)"

definition save :: "save_result \<Rightarrow> database \<Rightarrow> row \<Rightarrow> error + database \<times> row" where
  "save outcome db r =
     (case outcome of
        Fails msg \<Rightarrow> Inl (Error msg)
      | Persists generated \<Rightarrow>
          let r' = r\<lparr>attributes := generated ++ attributes r\<rparr>
          in Inr (persist (trx r') (attributes r') db, r'))"






text \<open>
  \<open>dissociate\<close>: the assignment of \<open>null\<close> to the parent's foreign key, then the
  parent's save. An exception leaves the assignment in place.
\<close>

definition dissociate :: "belongsTo \<Rightarrow> save_result \<Rightarrow> row \<Rightarrow> database \<Rightarrow> error option \<times> row \<times> database" where
  "dissociate rel parent_save par db =
     (let par1 = par\<lparr>attributes := (attributes par)(bt_foreignKey rel \<mapsto> Null)\<rparr> in
      case save parent_save db par1 of
        Inl e \<Rightarrow> (Some e, par1, db)
      | Inr (db1, par2) \<Rightarrow> (None, par2, db1))"

section \<open>A serialiser for flat query objects\<close>

text \<open>
  Decimal digits, and a serialiser without escapes for objects whose values are numbers
  and strings free of reserved characters (\<open>key=value\<close> pairs joined by \<open>&\<close>). It
  instantiates the parameter of \<open>getUrl\<close> where only the shape of a link matters.
  \<open>split_on\<close> cuts a string at every occurrence of a character.
\<close>

definition digit_char :: "nat \<Rightarrow> char" where
  "digit_char d = ''0123456789'' ! (d mod 10)"

fun digits_fuel :: "nat \<Rightarrow> nat \<Rightarrow> string" where
  "digits_fuel 0 n = []"
| "digits_fuel (Suc f) n =
     (if n < 10 then [digit_char n] else digits_fuel f (n div 10) @ [digit_char n])"

definition show_nat :: "nat \<Rightarrow> string" where
  "show_nat n = digits_fuel (Suc n) n"

fun render :: "jsval \<Rightarrow> string" where
  "render (Num n) = (if n < 0 then ''-'' @ show_nat (nat (- n)) else show_nat (nat n))"
| "render (Str s) = s"
| "render v = []"

fun join_amp :: "string list \<Rightarrow> string" where
  "join_amp [] = []"
| "join_amp [c] = c"
| "join_amp (c # d # cs) = c @ ''&'' @ join_amp (d # cs)"

definition stringify_flat :: "(string \<times> jsval) list \<Rightarrow> string" where
  "stringify_flat obj = join_amp (map (\<lambda>(k, v). k @ ''='' @ render v) obj)"



section \<open>The query-string format of qs\<close>













section \<open>Example values\<close>

definition skills_relation :: relation where
  "skills_relation =
     \<lparr> relationName = ''skills'', pivotTable = ''skill_user'', pivotForeignKey = ''user_id'',
       pivotRelatedForeignKey = ''skill_id'', localKey = ''id'', relatedKeyColumnName = ''id'',
       pivotColumns = [''proficiency''], pivotTimestamps = [''created_at'', ''updated_at''],
       relatedModel_table = ''skills'', pivotAlias = (\<lambda>c. ''pivot_'' @ c) \<rparr>"

definition user_row :: row where
  "user_row = \<lparr> attributes = [''id'' \<mapsto> Num 1], extras = Map.empty, trx = None \<rparr>"

definition select_query :: knex where
  "select_query = \<lparr> action = ''select'', aggregates = False, statements = [] \<rparr>"

definition skills_builder :: builder where
  "skills_builder = new_ManyToManyQueryBuilder select_query (\<lambda>c. c) (One user_row) skills_relation"

definition pivot_only_builder :: builder where
  "pivot_only_builder = set_isPivotOnlyQuery True skills_builder"

definition fetched_rows :: "row list" where
  "fetched_rows =
     [\<lparr> attributes = [''id'' \<mapsto> Num 10],
        extras = [''pivot_created_at'' \<mapsto> Str ''2024-05-01 10:00:00'',
                  ''pivot_updated_at'' \<mapsto> NativeDate 1714557600000,
                  ''pivot_proficiency'' \<mapsto> Num 3],
        trx = None \<rparr>,
      \<lparr> attributes = [''id'' \<mapsto> Num 11],
        extras = [''pivot_created_at'' \<mapsto> Str '''',
                  ''pivot_updated_at'' \<mapsto> Num 42],
        trx = None \<rparr>,
      \<lparr> attributes = [''id'' \<mapsto> Num 12],
        extras = [''pivot_created_at'' \<mapsto> Null],
        trx = None \<rparr>]"

definition profile_user :: belongsTo where
  "profile_user = \<lparr> bt_foreignKey = ''user_id'', bt_localKey = ''id'' \<rparr>"

definition profile_row :: row where
  "profile_row = \<lparr> attributes = [''id'' \<mapsto> Num 3], extras = Map.empty, trx = None \<rparr>"


definition idle_db :: database where
  "idle_db = \<lparr> committed = [], transactions = (\<lambda>i. \<lparr> writes = [], state = Active \<rparr>), next_trx = 0 \<rparr>"




section \<open>Properties of the paginator\<close>

lemma ceiling_of_quotient:
  assumes "0 < pp"
  shows "(\<lceil>real_of_int t / real_of_int pp\<rceil> = n) = ((n - 1) * pp < t \<and> t \<le> n * pp)"
proof -
  have lower: "(real_of_int n - 1 < real_of_int t / real_of_int pp) = ((n - 1) * pp < t)"
  proof -
    have "(real_of_int (n - 1) < real_of_int t / real_of_int pp)
            = (real_of_int (n - 1) * real_of_int pp < real_of_int t)"
      using assms by (simp add: pos_less_divide_eq)
    also have "\<dots> = (real_of_int ((n - 1) * pp) < real_of_int t)" by simp
    also have "\<dots> = ((n - 1) * pp < t)" by (simp only: of_int_less_iff)
    finally show ?thesis by simp
  qed
  have upper: "(real_of_int t / real_of_int pp \<le> real_of_int n) = (t \<le> n * pp)"
  proof -
    have "(real_of_int t / real_of_int pp \<le> real_of_int n)
            = (real_of_int t \<le> real_of_int n * real_of_int pp)"
      using assms by (simp add: pos_divide_le_eq)
    also have "\<dots> = (real_of_int t \<le> real_of_int (n * pp))" by simp
    also have "\<dots> = (t \<le> n * pp)" by (simp only: of_int_le_iff)
    finally show ?thesis .
  qed
  show ?thesis by (simp only: ceiling_eq_iff lower upper)
qed

lemma ceiling_least_page:
  assumes "0 < pp" and "t \<le> m * pp"
  shows "\<lceil>real_of_int t / real_of_int pp\<rceil> \<le> m"
proof -
  define c where "c = \<lceil>real_of_int t / real_of_int pp\<rceil>"
  then have "(c - 1) * pp < t" using ceiling_of_quotient [OF assms(1), of t c] by simp
  with assms(2) have "(c - 1) * pp < m * pp" by simp
  with assms(1) have "c - 1 < m" by (simp add: mult_less_cancel_right)
  then show ?thesis unfolding c_def by simp
qed

text \<open>
  Claim C5. For a paginator constructed with \<open>total \<ge> 0\<close> and \<open>perPage \<ge> 1\<close>, the field
  \<open>lastPage\<close> is \<open>max(ceil(total / perPage), 1)\<close>: it is the least page count \<open>n \<ge> 1\<close>
  whose \<open>n\<close> pages of \<open>perPage\<close> rows hold all \<open>total\<close> rows. The field \<open>hasTotal\<close> is
  \<open>total > 0\<close>.
\<close>

theorem lastPage_hasTotal:
  assumes "0 \<le> t" and "1 \<le> pp"
  shows "lastPage (new_SimplePaginator t pp cp rs) = Fin (max \<lceil>real_of_int t / real_of_int pp\<rceil> 1)
       \<and> (\<exists>n. lastPage (new_SimplePaginator t pp cp rs) = Fin n \<and> 1 \<le> n \<and> t \<le> n * pp
              \<and> (\<forall>m. 1 \<le> m \<and> t \<le> m * pp \<longrightarrow> n \<le> m))
       \<and> hasTotal (new_SimplePaginator t pp cp rs) = (0 < t)"
proof -
  define c where "c = \<lceil>real_of_int t / real_of_int pp\<rceil>"
  have pos: "0 < pp" using assms(2) by simp
  have lp: "lastPage (new_SimplePaginator t pp cp rs) = Fin (max c 1)"
    using pos by (simp add: new_SimplePaginator_def lastPage_of_def c_def)
  have cover: "t \<le> c * pp" using ceiling_of_quotient [OF pos, of t c] c_def by simp
  have "c * pp \<le> max c 1 * pp" using pos by (simp add: mult_right_mono)
  with cover have covered: "t \<le> max c 1 * pp" by simp
  have least: "\<forall>m. 1 \<le> m \<and> t \<le> m * pp \<longrightarrow> max c 1 \<le> m"
    using ceiling_least_page [OF pos] c_def by auto
  have ht: "hasTotal (new_SimplePaginator t pp cp rs) = (0 < t)"
    by (simp add: new_SimplePaginator_def)
  from lp covered least ht show ?thesis unfolding c_def by auto
qed

text \<open>The scenarios of the specification: 95 rows in pages of 20, and no rows at all.\<close>

theorem lastPage_hasTotal_witness:
  "(0::int) \<le> 95 \<and> (1::int) \<le> 20
   \<and> lastPage (new_SimplePaginator 95 20 1 [Null]) = Fin 5
   \<and> hasTotal (new_SimplePaginator 95 20 1 [Null])
   \<and> lastPage (new_SimplePaginator 0 20 1 ([]::jsval list)) = Fin 1
   \<and> \<not> hasTotal (new_SimplePaginator 0 20 1 ([]::jsval list))"
  using lastPage_hasTotal [of 95 20 1 "[Null]"] lastPage_hasTotal [of 0 20 1 "[]::jsval list"]
  by simp

text \<open>
  Claim C6. For every paginator, \<open>getPreviousPageUrl()\<close> is \<open>null\<close> exactly when
  \<open>currentPage \<le> 1\<close> and is \<open>getUrl(currentPage - 1)\<close> otherwise; \<open>getNextPageUrl()\<close> is
  \<open>null\<close> exactly when \<open>hasMorePages\<close> is false and is \<open>getUrl(currentPage + 1)\<close> otherwise.
  Both methods are total: neither has a path that raises.
\<close>

theorem page_urls:
  "getPreviousPageUrl stringify p
     = (if currentPage p \<le> 1 then None else Some (getUrl stringify p (currentPage p - 1)))
   \<and> (getPreviousPageUrl stringify p = None) = (currentPage p \<le> 1)
   \<and> getNextPageUrl stringify p
     = (if hasMorePages p then Some (getUrl stringify p (currentPage p + 1)) else None)
   \<and> (getNextPageUrl stringify p = None) = (\<not> hasMorePages p)"
  by (simp add: getPreviousPageUrl_def getNextPageUrl_def)

text \<open>The first and the last of five pages.\<close>

theorem page_urls_witness:
  "getPreviousPageUrl stringify_flat (new_SimplePaginator 95 20 1 [Null]) = None
   \<and> getNextPageUrl stringify_flat (new_SimplePaginator 95 20 1 [Null]) = Some ''/?page=2''
   \<and> getPreviousPageUrl stringify_flat (new_SimplePaginator 95 20 5 [Null]) = Some ''/?page=4''
   \<and> getNextPageUrl stringify_flat (new_SimplePaginator 95 20 5 [Null]) = None"
proof -
  have a: "getUrl stringify_flat (new_SimplePaginator 95 20 1 [Null]) (1 + 1) = ''/?page=2''" by code_simp
  have b: "getUrl stringify_flat (new_SimplePaginator 95 20 5 [Null]) (5 - 1) = ''/?page=4''" by code_simp
  have c: "hasMorePages (new_SimplePaginator 95 20 1 [Null])" by (simp add: new_SimplePaginator_def lastPage_of_def)
  have d: "\<not> hasMorePages (new_SimplePaginator 95 20 5 [Null])" by (simp add: new_SimplePaginator_def lastPage_of_def)
  have e: "currentPage (new_SimplePaginator 95 20 1 [Null]) = 1" "currentPage (new_SimplePaginator 95 20 5 [Null]) = 5"
    by (simp_all add: new_SimplePaginator_def)
  show ?thesis
    using page_urls [of stringify_flat "new_SimplePaginator 95 20 1 [Null]"]
          page_urls [of stringify_flat "new_SimplePaginator 95 20 5 [Null]"] a b c d e
    by simp
qed



section \<open>Properties of the many-to-many query builder\<close>

lemma push_fields [simp]:
  "appliedConstraints (push s q) = appliedConstraints q"
  "pivotQuery (push s q) = pivotQuery q"
  "cherryPickingKeys (push s q) = cherryPickingKeys q"
  "isRelatedPreloadQuery (push s q) = isRelatedPreloadQuery q"
  "relation (push s q) = relation q"
  "parent (push s q) = parent q"
  "action (knexQuery (push s q)) = action (knexQuery q)"
  "aggregates (knexQuery (push s q)) = aggregates (knexQuery q)"
  "statements (knexQuery (push s q)) = statements (knexQuery q) @ [s]"
  by (simp_all add: push_def)

lemma where_family_Col:
  "where_family name q (Col c) operator val
     = Inr (push (Predicate name (Col (prefixRelatedTable q c)) [operator, val]) q)"
  by (simp add: where_family_def super_predicate_def)

lemma whereIn_family_Col:
  "whereIn_family name q (Col c) val
     = Inr (push (Predicate name (Col (prefixRelatedTable q c)) [val]) q)"
  by (simp add: whereIn_family_def super_predicate_def)

lemma wherePivot_Col:
  "wherePivot q (Col c) operator val
     = Inr (push (Predicate ''where''
                   (Col (prefixRelatedTable q
                          (if val = Undefined \<and> operator = Undefined then c
                           else prefixPivotTable pivotHelpers_of_builder q c)))
                   (if val \<noteq> Undefined then [operator, val]
                    else if operator \<noteq> Undefined then [operator, Undefined]
                    else [Undefined, Undefined])) q)"
  by (simp add: wherePivot_def PivotHelpers_wherePivot_def wherePivot_forwarded_def
      query_method_def where_family_Col arg_def)

lemma whereInPivot_Col:
  "whereInPivot q (Col c) val
     = Inr (push (Predicate ''whereIn''
                   (Col (prefixRelatedTable q (prefixPivotTable pivotHelpers_of_builder q c)))
                   [val]) q)"
  by (simp add: whereInPivot_def PivotHelpers_whereInPivot_def whereInPivot_key_def
      query_method_def whereIn_family_Col arg_def)

lemma addWhereConstraints_total:
  "\<exists>q'. addWhereConstraints q = Inr q' \<and> appliedConstraints q' = appliedConstraints q"
  by (cases "parent q") (simp_all add: addWhereConstraints_def wherePivot_Col whereInPivot_Col)

lemma select_fields [simp]:
  "appliedConstraints (select q cs) = appliedConstraints q"
  by (simp add: select_def Let_def)

lemma pivotColumns_m_fields [simp]:
  "appliedConstraints (pivotColumns_m q cs) = appliedConstraints q"
  by (simp add: pivotColumns_m_def PivotHelpers_pivotColumns_def)

lemma applyConstraints_applied:
  "appliedConstraints q \<Longrightarrow> applyConstraints q = Inr q"
  by (simp add: applyConstraints_def)

lemma applyConstraints_total:
  "\<exists>q'. applyConstraints q = Inr q' \<and> appliedConstraints q'"
proof (cases "appliedConstraints q")
  case True
  then show ?thesis by (simp add: applyConstraints_def)
next
  case False
  define q1 where "q1 = q\<lparr>appliedConstraints := True\<rparr>"
  show ?thesis
  proof (cases "isPivotOnlyQuery q1 \<or> queryAction q1 \<in> {''delete'', ''update''}")
    case True
    obtain q' where "addWhereConstraints (push (From (pivotTable (relation q1))) q1) = Inr q'"
      and "appliedConstraints q' = appliedConstraints (push (From (pivotTable (relation q1))) q1)"
      using addWhereConstraints_total by blast
    with True False show ?thesis
      by (simp add: applyConstraints_def q1_def [symmetric] Let_def) (simp add: q1_def)
  next
    case nonpivot: False
    define q2 where "q2 = (if \<not> hasAggregates q1
                    then (let q3 = (if \<not> cherryPickingKeys q1 then select q1 [ColName ''*''] else q1)
                          in pivotColumns_m q3
                               ([pivotForeignKey (relation q3), pivotRelatedForeignKey (relation q3)]
                                  @ pivotColumns (relation q3) @ pivotTimestamps (relation q3)))
                    else q1)"
    define q4 where "q4 = push (InnerJoin (pivotTable (relation q2))
                          (relatedTable q2 @ ''.'' @ relatedKeyColumnName (relation q2))
                          (pivotTable (relation q2) @ ''.'' @ pivotRelatedForeignKey (relation q2))) q2"
    have a2: "appliedConstraints q2" by (simp add: q2_def q1_def Let_def)
    then have a4: "appliedConstraints q4" by (simp add: q4_def)
    obtain q' where r: "addWhereConstraints q4 = Inr q'" and "appliedConstraints q' = appliedConstraints q4"
      using addWhereConstraints_total by blast
    with a4 have "appliedConstraints q'" by simp
    moreover have "applyConstraints q = addWhereConstraints q4"
      using False nonpivot
      by (simp add: applyConstraints_def q1_def [symmetric] Let_def q2_def q4_def)
    ultimately show ?thesis using r by simp
  qed
qed

text \<open>
  Claim C2. For every builder, calling \<open>applyConstraints\<close> twice leaves the same query
  state as calling it once. The first call returns with the flag \<open>appliedConstraints\<close>
  set; the second call finds the flag set and returns the state as it is, adding no
  join, select or pivot predicate.
\<close>

theorem applyConstraints_idempotent:
  "(case applyConstraints q of Inl e \<Rightarrow> Inl e | Inr q' \<Rightarrow> applyConstraints q') = applyConstraints q
   \<and> (\<exists>q'. applyConstraints q = Inr q' \<and> appliedConstraints q' \<and> applyConstraints q' = Inr q')"
proof -
  obtain q' where "applyConstraints q = Inr q'" and "appliedConstraints q'"
    using applyConstraints_total by blast
  then show ?thesis by (simp add: applyConstraints_applied)
qed

text \<open>
  A fresh builder for one parent row: the first call issues the two select lists, the
  join and the pivot predicate; the second call adds nothing.
\<close>

theorem applyConstraints_idempotent_witness:
  "(\<exists>q'. applyConstraints skills_builder = Inr q'
       \<and> statements (knexQuery q') =
           [Select [ColName ''skills.*''],
            Select [ColName ''skill_user.user_id as pivot_user_id'',
                    ColName ''skill_user.skill_id as pivot_skill_id'',
                    ColName ''skill_user.proficiency as pivot_proficiency'',
                    ColName ''skill_user.created_at as pivot_created_at'',
                    ColName ''skill_user.updated_at as pivot_updated_at''],
            InnerJoin ''skill_user'' ''skills.id'' ''skill_user.skill_id'',
            WrapExisting,
            Predicate ''where'' (Col ''skill_user.user_id'') [Num 1, Undefined]]
       \<and> applyConstraints q' = Inr q')
   \<and> \<not> appliedConstraints skills_builder"
proof -
  have s: "(case applyConstraints skills_builder of Inl e \<Rightarrow> [] | Inr q' \<Rightarrow> statements (knexQuery q')) =
           [Select [ColName ''skills.*''],
            Select [ColName ''skill_user.user_id as pivot_user_id'',
                    ColName ''skill_user.skill_id as pivot_skill_id'',
                    ColName ''skill_user.proficiency as pivot_proficiency'',
                    ColName ''skill_user.created_at as pivot_created_at'',
                    ColName ''skill_user.updated_at as pivot_updated_at''],
            InnerJoin ''skill_user'' ''skills.id'' ''skill_user.skill_id'',
            WrapExisting,
            Predicate ''where'' (Col ''skill_user.user_id'') [Num 1, Undefined]]"
    by code_simp
  have n: "\<not> appliedConstraints skills_builder"
    by (simp add: skills_builder_def new_ManyToManyQueryBuilder_def)
  from applyConstraints_idempotent [of skills_builder] s n show ?thesis by auto
qed

text \<open>
  Claim C9. For every builder \<open>b\<close>, \<open>b.clone()\<close> returns, and it first applies the
  constraints to \<open>b\<close> itself: afterwards \<open>b\<close> is in the state \<open>applyConstraints\<close> leaves it
  in, both \<open>b\<close> and the clone have \<open>appliedConstraints\<close> set, and a further
  \<open>applyConstraints\<close> changes neither of them. This holds whether or not \<open>b\<close> had applied
  its constraints before. The clone starts from the statements of \<open>b\<close>.
\<close>

theorem clone_applies_constraints:
  "\<exists>this c. clone q = Inr (this, c)
      \<and> applyConstraints q = Inr this
      \<and> appliedConstraints this \<and> appliedConstraints c
      \<and> applyConstraints this = Inr this \<and> applyConstraints c = Inr c
      \<and> knexQuery c = knexQuery this"
proof -
  obtain this where a: "applyConstraints q = Inr this" and b: "appliedConstraints this"
    using applyConstraints_total by blast
  define c where "c = snd (case clone q of Inr p \<Rightarrow> p)"
  have cl: "clone q = Inr (this, c)"
    unfolding c_def using a by (simp add: clone_def Let_def)
  have ac: "appliedConstraints c"
    unfolding c_def using a b by (simp add: clone_def Let_def)
  have kc: "knexQuery c = knexQuery this"
    unfolding c_def using a
    by (simp add: clone_def Let_def set_isPivotOnlyQuery_def pojo_def new_ManyToManyQueryBuilder_def)
  from a b cl ac kc show ?thesis by (simp add: applyConstraints_applied)
qed

text \<open>Cloning a builder that had not applied its constraints.\<close>

theorem clone_applies_constraints_witness:
  "\<not> appliedConstraints skills_builder
   \<and> (\<exists>this c. clone skills_builder = Inr (this, c)
         \<and> appliedConstraints this \<and> appliedConstraints c
         \<and> applyConstraints this = Inr this \<and> applyConstraints c = Inr c
         \<and> length (statements (knexQuery this)) = 5
         \<and> statements (knexQuery c) = statements (knexQuery this))"
proof -
  have n: "\<not> appliedConstraints skills_builder"
    by (simp add: skills_builder_def new_ManyToManyQueryBuilder_def)
  have s: "(case applyConstraints skills_builder of Inl e \<Rightarrow> 0 | Inr q' \<Rightarrow> length (statements (knexQuery q'))) = 5"
    by code_simp
  from clone_applies_constraints [of skills_builder] n s show ?thesis by auto
qed

text \<open>
  Claim C1. \<open>where(k, op, v)\<close> qualifies a bare column name with the related table, and
  \<open>wherePivot(k, op, v)\<close> with the pivot table, or leaves it bare on a pivot-only
  builder. The code departs from this on a pivot-only builder: \<open>prefixPivotTable\<close>
  leaves \<open>status\<close> bare, but \<open>this.query[method]\<close> is the builder's own \<open>where\<close>, which
  qualifies what it gets with the related table. The statement evaluates the code on
  the pivot-only builder, next to \<open>wherePivot\<close> and \<open>where\<close> on the builder that joins.
\<close>

theorem wherePivot_pivot_only_related_prefix:
  "prefixPivotTable pivotHelpers_of_builder pivot_only_builder ''status'' = ''status''
   \<and> wherePivot pivot_only_builder (Col ''status'') (Str ''='') (Str ''active'')
       = Inr (push (Predicate ''where'' (Col ''skills.status'') [Str ''='', Str ''active'']) pivot_only_builder)
   \<and> wherePivot skills_builder (Col ''status'') (Str ''='') (Str ''active'')
       = Inr (push (Predicate ''where'' (Col ''skill_user.status'') [Str ''='', Str ''active'']) skills_builder)
   \<and> whereQ skills_builder (Col ''status'') (Str ''='') (Str ''active'')
       = Inr (push (Predicate ''where'' (Col ''skills.status'') [Str ''='', Str ''active'']) skills_builder)"
proof -
  have po: "isPivotOnlyQuery pivot_only_builder"
    by (simp add: pivot_only_builder_def set_isPivotOnlyQuery_def isPivotOnlyQuery_def pojo_def Let_def)
  have npo: "\<not> isPivotOnlyQuery skills_builder"
    by (simp add: skills_builder_def new_ManyToManyQueryBuilder_def isPivotOnlyQuery_def)
  have rt: "relatedTable pivot_only_builder = ''skills''" "relatedTable skills_builder = ''skills''"
    by (simp_all add: pivot_only_builder_def set_isPivotOnlyQuery_def pojo_def Let_def relatedTable_def
        skills_builder_def new_ManyToManyQueryBuilder_def skills_relation_def)
  have pt: "pivotTable (relation skills_builder) = ''skill_user''"
    by (simp add: skills_builder_def new_ManyToManyQueryBuilder_def skills_relation_def)
  have a: "prefixPivotTable pivotHelpers_of_builder pivot_only_builder ''status'' = ''status''"
    using po by (simp add: prefixPivotTable_def pivotHelpers_of_builder_def)
  have b: "prefixPivotTable pivotHelpers_of_builder skills_builder ''status'' = ''skill_user.status''"
    using npo pt by (simp add: prefixPivotTable_def pivotHelpers_of_builder_def)
  have c: "prefixRelatedTable pivot_only_builder ''status'' = ''skills.status''"
          "prefixRelatedTable skills_builder ''status'' = ''skills.status''"
          "prefixRelatedTable skills_builder ''skill_user.status'' = ''skill_user.status''"
    using rt by (simp_all add: prefixRelatedTable_def)
  show ?thesis
    using a b c by (simp add: wherePivot_Col whereQ_def where_family_Col)
qed

section \<open>Properties of the row post-processing\<close>

text \<open>What one pass of the callback makes of the value stored under a column.\<close>

lemma transform_timestamp_extras:
  "extras (transform_timestamp r ts) k =
     (if k = ts then
        (case extras r ts of
           None \<Rightarrow> None
         | Some v \<Rightarrow> Some (if falsy v then v
                          else case v of Str s \<Rightarrow> Luxon (FromSQL s)
                                       | NativeDate d \<Rightarrow> Luxon (FromJSDate d)
                                       | _ \<Rightarrow> v))
      else extras r k)"
  by (cases "extras r ts"; cases "the (extras r ts)")
     (auto simp: transform_timestamp_def Let_def split: option.splits jsval.splits)

lemma transform_timestamp_frame:
  "attributes (transform_timestamp r ts) = attributes r"
  "trx (transform_timestamp r ts) = trx r"
  by (auto simp: transform_timestamp_def Let_def split: option.splits jsval.splits)

lemma foldl_transform_timestamp_extras:
  "extras (foldl transform_timestamp r pts) k =
     (if k \<in> set pts then
        (case extras r k of
           None \<Rightarrow> None
         | Some v \<Rightarrow> Some (if falsy v then v
                          else case v of Str s \<Rightarrow> Luxon (FromSQL s)
                                       | NativeDate d \<Rightarrow> Luxon (FromJSDate d)
                                       | _ \<Rightarrow> v))
      else extras r k)"
proof (induction pts arbitrary: r)
  case Nil
  then show ?case by simp
next
  case (Cons ts pts)
  show ?case
    by (simp add: Cons.IH transform_timestamp_extras split: option.splits jsval.splits)
qed

lemma exec_nth:
  assumes "i < length fetched"
  shows "exec q fetched ! i
           = foldl transform_timestamp (fetched ! i)
               (map (pivotAlias (relation q)) (pivotTimestamps (relation q)))"
proof (cases "pivotTimestamps (relation q) = []")
  case True
  then show ?thesis by (simp add: exec_def exec_rowTransformer_def)
next
  case False
  with assms show ?thesis by (simp add: exec_def exec_rowTransformer_def)
qed

text \<open>
  Claim C8. After \<open>exec\<close>, for every returned row and every declared pivot timestamp
  column, looked up in the row's extras under its alias: a non-empty string is replaced
  by the datetime parsed from it; a native \<open>Date\<close> is replaced by the datetime converted
  from it; an absent value stays absent; a falsy value (\<open>undefined\<close>, \<open>null\<close>, \<open>false\<close>,
  \<open>0\<close>, the empty string) stays as it is; and a value that is neither a string nor a
  native \<open>Date\<close> stays as it is. No row is dropped and nothing raises.
\<close>

theorem exec_pivot_timestamps:
  assumes "i < length fetched" and "ts \<in> set (pivotTimestamps (relation q))"
  shows "length (exec q fetched) = length fetched
    \<and> (\<forall>s. extras (fetched ! i) (pivotAlias (relation q) ts) = Some (Str s) \<and> s \<noteq> [] \<longrightarrow>
          extras (exec q fetched ! i) (pivotAlias (relation q) ts) = Some (Luxon (FromSQL s)))
    \<and> (\<forall>d. extras (fetched ! i) (pivotAlias (relation q) ts) = Some (NativeDate d) \<longrightarrow>
          extras (exec q fetched ! i) (pivotAlias (relation q) ts) = Some (Luxon (FromJSDate d)))
    \<and> (extras (fetched ! i) (pivotAlias (relation q) ts) = None \<longrightarrow>
          extras (exec q fetched ! i) (pivotAlias (relation q) ts) = None)
    \<and> (\<forall>v. extras (fetched ! i) (pivotAlias (relation q) ts) = Some v \<and> falsy v \<longrightarrow>
          extras (exec q fetched ! i) (pivotAlias (relation q) ts) = Some v)
    \<and> (\<forall>v. extras (fetched ! i) (pivotAlias (relation q) ts) = Some v
            \<and> (\<forall>s. v \<noteq> Str s) \<and> (\<forall>d. v \<noteq> NativeDate d) \<longrightarrow>
          extras (exec q fetched ! i) (pivotAlias (relation q) ts) = Some v)"
proof -
  have len: "length (exec q fetched) = length fetched"
    by (simp add: exec_def split: option.splits)
  have mem: "pivotAlias (relation q) ts \<in> set (map (pivotAlias (relation q)) (pivotTimestamps (relation q)))"
    using assms(2) by simp
  have ex: "extras (exec q fetched ! i) (pivotAlias (relation q) ts) =
      (case extras (fetched ! i) (pivotAlias (relation q) ts) of
           None \<Rightarrow> None
         | Some v \<Rightarrow> Some (if falsy v then v
                          else case v of Str s \<Rightarrow> Luxon (FromSQL s)
                                       | NativeDate d \<Rightarrow> Luxon (FromJSDate d)
                                       | _ \<Rightarrow> v))"
    using mem by (simp only: exec_nth [OF assms(1)] foldl_transform_timestamp_extras if_True)
  show ?thesis
    using len by (auto simp: ex split: jsval.splits)
qed

text \<open>Three fetched rows: a string and a native date, an empty string and a number, \<open>null\<close> and an absent value.\<close>

theorem exec_pivot_timestamps_witness:
  "length (exec skills_builder fetched_rows) = 3
   \<and> extras (exec skills_builder fetched_rows ! 0) ''pivot_created_at'' = Some (Luxon (FromSQL ''2024-05-01 10:00:00''))
   \<and> extras (exec skills_builder fetched_rows ! 0) ''pivot_updated_at'' = Some (Luxon (FromJSDate 1714557600000))
   \<and> extras (exec skills_builder fetched_rows ! 1) ''pivot_created_at'' = Some (Str '''')
   \<and> extras (exec skills_builder fetched_rows ! 1) ''pivot_updated_at'' = Some (Num 42)
   \<and> extras (exec skills_builder fetched_rows ! 2) ''pivot_created_at'' = Some Null
   \<and> extras (exec skills_builder fetched_rows ! 2) ''pivot_updated_at'' = None"
proof -
  have rel: "pivotTimestamps (relation skills_builder) = [''created_at'', ''updated_at'']"
            "pivotAlias (relation skills_builder) ''created_at'' = ''pivot_created_at''"
            "pivotAlias (relation skills_builder) ''updated_at'' = ''pivot_updated_at''"
    by (simp_all add: skills_builder_def new_ManyToManyQueryBuilder_def skills_relation_def)
  have c: "''created_at'' \<in> set (pivotTimestamps (relation skills_builder))"
    and u: "''updated_at'' \<in> set (pivotTimestamps (relation skills_builder))"
    by (simp_all add: rel)
  have i0: "0 < length fetched_rows" and i1: "1 < length fetched_rows" and i2: "2 < length fetched_rows"
    by (simp_all add: fetched_rows_def)
  have before:
    "extras (fetched_rows ! 0) ''pivot_created_at'' = Some (Str ''2024-05-01 10:00:00'')"
    "extras (fetched_rows ! 0) ''pivot_updated_at'' = Some (NativeDate 1714557600000)"
    "extras (fetched_rows ! 1) ''pivot_created_at'' = Some (Str '''')"
    "extras (fetched_rows ! 1) ''pivot_updated_at'' = Some (Num 42)"
    "extras (fetched_rows ! 2) ''pivot_created_at'' = Some Null"
    "extras (fetched_rows ! 2) ''pivot_updated_at'' = None"
    by (simp_all add: fetched_rows_def)
  have len: "length fetched_rows = 3" by (simp add: fetched_rows_def)
  from exec_pivot_timestamps [OF i0 c] exec_pivot_timestamps [OF i0 u]
       exec_pivot_timestamps [OF i1 c] exec_pivot_timestamps [OF i1 u]
       exec_pivot_timestamps [OF i2 c] exec_pivot_timestamps [OF i2 u] rel before len
  show ?thesis by simp
qed

section \<open>Column prefixing of the predicate methods\<close>

text \<open>
  \<open>where(k, op, v)\<close> hands the generic builder the column name unchanged when it has a
  dot, and qualified with the related table's name otherwise.
\<close>

theorem where_related_prefix:
  "whereQ q (Col k) operator val
     = Inr (push (Predicate ''where''
                   (Col (if CHR ''.'' \<in> set k then k else relatedModel_table (relation q) @ ''.'' @ k))
                   [operator, val]) q)"
  by (simp add: whereQ_def where_family_Col prefixRelatedTable_def relatedTable_def)

text \<open>A bare and a dotted column name.\<close>

theorem where_related_prefix_witness:
  "whereQ skills_builder (Col ''status'') (Str ''='') (Str ''active'')
     = Inr (push (Predicate ''where'' (Col ''skills.status'') [Str ''='', Str ''active'']) skills_builder)
   \<and> whereQ skills_builder (Col ''skill_user.status'') (Str ''='') (Str ''active'')
     = Inr (push (Predicate ''where'' (Col ''skill_user.status'') [Str ''='', Str ''active'']) skills_builder)"
proof -
  have t: "relatedModel_table (relation skills_builder) = ''skills''"
    by (simp add: skills_builder_def new_ManyToManyQueryBuilder_def skills_relation_def)
  from where_related_prefix [of skills_builder "''status''" "Str ''=''" "Str ''active''"]
       where_related_prefix [of skills_builder "''skill_user.status''" "Str ''=''" "Str ''active''"] t
  show ?thesis by simp
qed

text \<open>
  \<open>wherePivot(k, op, v)\<close> with a value hands the generic builder the column name
  unchanged when it has a dot; otherwise qualified with the pivot table's name on a
  builder that joins, and with the related table's name on a pivot-only builder.
\<close>

theorem wherePivot_forwarded_key:
  assumes "val \<noteq> Undefined"
  shows "wherePivot q (Col k) operator val
     = Inr (push (Predicate ''where''
                   (Col (if CHR ''.'' \<in> set k then k
                         else if isPivotOnlyQuery q then relatedModel_table (relation q) @ ''.'' @ k
                         else pivotTable (relation q) @ ''.'' @ k))
                   [operator, val]) q)"
  using assms
  by (simp add: wherePivot_Col prefixRelatedTable_def prefixPivotTable_def relatedTable_def
      pivotHelpers_of_builder_def)

text \<open>A bare and a dotted column name on the builder that joins.\<close>

theorem wherePivot_forwarded_key_witness:
  "Str ''active'' \<noteq> Undefined
   \<and> wherePivot skills_builder (Col ''status'') (Str ''='') (Str ''active'')
     = Inr (push (Predicate ''where'' (Col ''skill_user.status'') [Str ''='', Str ''active'']) skills_builder)
   \<and> wherePivot skills_builder (Col ''skills.status'') (Str ''='') (Str ''active'')
     = Inr (push (Predicate ''where'' (Col ''skills.status'') [Str ''='', Str ''active'']) skills_builder)"
proof -
  have t: "pivotTable (relation skills_builder) = ''skill_user''" "\<not> isPivotOnlyQuery skills_builder"
    by (simp_all add: skills_builder_def new_ManyToManyQueryBuilder_def skills_relation_def isPivotOnlyQuery_def)
  have v: "Str ''active'' \<noteq> Undefined" by simp
  from wherePivot_forwarded_key [OF v, of skills_builder "''status''" "Str ''=''"]
       wherePivot_forwarded_key [OF v, of skills_builder "''skills.status''" "Str ''=''"] t
  show ?thesis by simp
qed

section \<open>Properties of associate\<close>







section \<open>Navigation on a constructed paginator\<close>

lemma ceiling_quotient_le:
  assumes "0 < pp"
  shows "(\<lceil>real_of_int t / real_of_int pp\<rceil> \<le> m) = (t \<le> m * pp)"
proof
  assume le: "\<lceil>real_of_int t / real_of_int pp\<rceil> \<le> m"
  have "t \<le> \<lceil>real_of_int t / real_of_int pp\<rceil> * pp"
    using ceiling_of_quotient [OF assms, of t "\<lceil>real_of_int t / real_of_int pp\<rceil>"] by simp
  also have "\<dots> \<le> m * pp" using le assms by (simp add: mult_right_mono)
  finally show "t \<le> m * pp" .
next
  assume "t \<le> m * pp"
  then show "\<lceil>real_of_int t / real_of_int pp\<rceil> \<le> m" by (rule ceiling_least_page [OF assms])
qed

text \<open>
  For a paginator constructed with \<open>total \<ge> 0\<close> and \<open>perPage \<ge> 1\<close>: there are more pages
  exactly when the pages up to the current one do not hold all rows (or the current
  page is below 1), so \<open>getNextPageUrl()\<close> is \<open>null\<close> exactly on a page from 1 on that
  reaches the total; and there are pages to navigate exactly when one page does not
  hold all rows.
\<close>

theorem constructed_navigation:
  assumes "0 \<le> t" and "1 \<le> pp"
  shows "hasMorePages (new_SimplePaginator t pp cp rs) = (cp < 1 \<or> cp * pp < t)
       \<and> (getNextPageUrl stringify (new_SimplePaginator t pp cp rs) = None) = (1 \<le> cp \<and> t \<le> cp * pp)
       \<and> hasPages (new_SimplePaginator t pp cp rs) = (pp < t)"
proof -
  have pos: "0 < pp" using assms(2) by simp
  define c where "c = \<lceil>real_of_int t / real_of_int pp\<rceil>"
  have lp: "lastPage_of t pp = Fin (max c 1)" using pos by (simp add: lastPage_of_def c_def)
  have c_cp: "(c \<le> cp) = (t \<le> cp * pp)" unfolding c_def by (rule ceiling_quotient_le [OF pos])
  have c_1: "(c \<le> 1) = (t \<le> pp)" using ceiling_quotient_le [OF pos, of t 1] c_def by simp
  have more: "hasMorePages (new_SimplePaginator t pp cp rs) = (cp < 1 \<or> cp * pp < t)"
    using c_cp by (auto simp: new_SimplePaginator_def lp)
  have pages: "hasPages (new_SimplePaginator t pp cp rs) = (pp < t)"
    using c_1 by (auto simp: new_SimplePaginator_def lp)
  from more pages show ?thesis by (auto simp: getNextPageUrl_def)
qed

text \<open>The scenarios of the specification on the first page, and the last of five pages.\<close>

theorem constructed_navigation_witness:
  "(0::int) \<le> 95 \<and> (1::int) \<le> 20
   \<and> hasMorePages (new_SimplePaginator 95 20 1 [Null])
   \<and> hasPages (new_SimplePaginator 95 20 1 [Null])
   \<and> getNextPageUrl stringify_flat (new_SimplePaginator 95 20 5 [Null]) = None
   \<and> \<not> hasMorePages (new_SimplePaginator 0 20 1 ([]::jsval list))
   \<and> \<not> hasPages (new_SimplePaginator 0 20 1 ([]::jsval list))"
  using constructed_navigation [of 95 20 1 "[Null]" stringify_flat]
        constructed_navigation [of 95 20 5 "[Null]" stringify_flat]
        constructed_navigation [of 0 20 1 "[]::jsval list" stringify_flat]
  by simp

section \<open>Page links for a range\<close>

lemma getUrlsForRange_loop_map:
  "getUrlsForRange_loop stringify p i end_page urls
     = urls @ map (\<lambda>j. (getUrl stringify p j, j, j = currentPage p)) [i..end_page]"
proof (induction stringify p i end_page urls rule: getUrlsForRange_loop.induct)
  case (1 stringify p i end_page urls)
  show ?case
  proof (cases "i \<le> end_page")
    case True
    then have "[i..end_page] = i # [i + 1..end_page]" by (simp add: upto_rec1)
    with True "1.IH" show ?thesis by (simp add: getUrlsForRange_loop.simps [of stringify p i])
  next
    case False
    then show ?thesis by (simp add: getUrlsForRange_loop.simps [of stringify p i])
  qed
qed

text \<open>
  \<open>getUrlsForRange(start, end)\<close> returns one entry for every page from \<open>start\<close> to \<open>end\<close>,
  in order, each with the URL of its page, and marks as active exactly the entries of
  the current page.
\<close>

theorem getUrlsForRange_entries:
  "getUrlsForRange stringify p start end_page
     = map (\<lambda>j. (getUrl stringify p j, j, j = currentPage p)) [start..end_page]
   \<and> length (getUrlsForRange stringify p start end_page) = nat (end_page - start + 1)
   \<and> map (\<lambda>e. fst (snd e)) (getUrlsForRange stringify p start end_page) = [start..end_page]"
proof -
  have m: "getUrlsForRange stringify p start end_page
     = map (\<lambda>j. (getUrl stringify p j, j, j = currentPage p)) [start..end_page]"
    by (simp add: getUrlsForRange_def getUrlsForRange_loop_map)
  have "map (\<lambda>e. fst (snd e)) (map (\<lambda>j. (getUrl stringify p j, j, j = currentPage p)) [start..end_page])
          = [start..end_page]"
    by (simp add: comp_def)
  with m show ?thesis by simp
qed

text \<open>The scenario of the specification: the range 2 to 4 on page 3.\<close>

theorem getUrlsForRange_entries_witness:
  "getUrlsForRange stringify_flat (new_SimplePaginator 95 20 3 [Null]) 2 4
     = [(''/?page=2'', 2, False), (''/?page=3'', 3, True), (''/?page=4'', 4, False)]"
proof -
  have u: "[2..4::int] = [2, 3, 4]" by (simp add: upto_rec1)
  have g: "getUrl stringify_flat (new_SimplePaginator 95 20 3 [Null]) 2 = ''/?page=2''"
          "getUrl stringify_flat (new_SimplePaginator 95 20 3 [Null]) 3 = ''/?page=3''"
          "getUrl stringify_flat (new_SimplePaginator 95 20 3 [Null]) 4 = ''/?page=4''"
    by code_simp+
  have c: "currentPage (new_SimplePaginator 95 20 3 [Null]) = 3" by (simp add: new_SimplePaginator_def)
  from getUrlsForRange_entries [of stringify_flat "new_SimplePaginator 95 20 3 [Null]" 2 4] u g c
  show ?thesis by simp
qed

section \<open>Properties of dissociate\<close>

text \<open>
  \<open>dissociate()\<close> sets the parent's foreign key to \<open>null\<close>. When the save succeeds, the
  parent is persisted with exactly one write, which carries the \<open>null\<close> foreign key: in
  the committed store for a parent without a transaction, in the parent's transaction
  otherwise. When the save fails, nothing is written and the parent in memory keeps the
  \<open>null\<close> foreign key.
\<close>

theorem dissociate_one_write:
  assumes "dissociate rel ps par db = (err, p', db')"
  shows "attributes p' (bt_foreignKey rel) = Some Null
       \<and> (\<forall>g. ps = Persists g \<longrightarrow>
            err = None
            \<and> (trx par = None \<longrightarrow>
                  committed db' = committed db @ [attributes p'] \<and> transactions db' = transactions db)
            \<and> (\<forall>t. trx par = Some t \<longrightarrow>
                  committed db' = committed db
                  \<and> writes (transactions db' t) = writes (transactions db t) @ [attributes p']))
       \<and> (\<forall>m. ps = Fails m \<longrightarrow> err = Some (Error m) \<and> db' = db)"
  using assms
  by (cases ps)
     (auto simp: dissociate_def save_def persist_def Let_def map_add_def split: option.splits)

text \<open>A parent that points at user 7, without a transaction.\<close>

theorem dissociate_one_write_witness:
  "\<exists>p' db'. dissociate profile_user (Persists Map.empty)
               (profile_row\<lparr>attributes := (attributes profile_row)(''user_id'' \<mapsto> Num 7)\<rparr>) idle_db
             = (None, p', db')
      \<and> attributes p' ''user_id'' = Some Null
      \<and> committed db' = [attributes p']"
proof -
  obtain e p d where a:
    "dissociate profile_user (Persists Map.empty)
       (profile_row\<lparr>attributes := (attributes profile_row)(''user_id'' \<mapsto> Num 7)\<rparr>) idle_db = (e, p, d)"
    by (metis prod.exhaust)
  have c: "trx (profile_row\<lparr>attributes := (attributes profile_row)(''user_id'' \<mapsto> Num 7)\<rparr>) = None"
          "bt_foreignKey profile_user = ''user_id''" "committed idle_db = []"
    by (simp_all add: profile_row_def profile_user_def idle_db_def)
  from dissociate_one_write [OF a] a c show ?thesis by auto
qed

section \<open>Round trip of the page through the query string\<close>


























section \<open>Properties of paginate\<close>










section \<open>Call shapes of PivotHelpers.wherePivot\<close>

lemma query_method_where_Col:
  "query_method (wherePivot_method v) q (Col c) args
     = Inr (push (Predicate (wherePivot_method v) (Col (prefixRelatedTable q c)) [arg args 0, arg args 1]) q)"
  by (cases v) (simp_all add: query_method_def where_family_Col)

text \<open>
  Claim C10. \<open>PivotHelpers.wherePivot\<close> prefixes the key with \<open>prefixPivotTable\<close> only in
  the three-argument shape (a value is given) and in the two-argument shape (only an
  operator is given): there the method the variation selects on the bound query
  receives the prefixed column, with the operator and the value, or with the operator
  alone, and a key without \<open>includes\<close> raises. In the one-argument shape, where
  operator and value are both \<open>undefined\<close>, that method receives any key as it came
  and nothing else. On a column name the statement that reaches the generic builder
  is given for each shape.
\<close>

theorem wherePivot_call_shapes:
  "(val \<noteq> Undefined \<longrightarrow>
      PivotHelpers_wherePivot h q v (Col c) operator val
        = query_method (wherePivot_method v) q (Col (prefixPivotTable h q c)) [operator, val]
      \<and> PivotHelpers_wherePivot h q v (Col c) operator val
        = Inr (push (Predicate (wherePivot_method v)
                      (Col (prefixRelatedTable q (prefixPivotTable h q c))) [operator, val]) q)
      \<and> PivotHelpers_wherePivot h q v (Callback f) operator val
        = Inl (TypeError ''column.includes is not a function'')
      \<and> wherePivot_forwarded h q (Col c) operator val = Inr (Col (prefixPivotTable h q c), [operator, val]))
   \<and> (val = Undefined \<and> operator \<noteq> Undefined \<longrightarrow>
      PivotHelpers_wherePivot h q v (Col c) operator val
        = query_method (wherePivot_method v) q (Col (prefixPivotTable h q c)) [operator]
      \<and> PivotHelpers_wherePivot h q v (Col c) operator val
        = Inr (push (Predicate (wherePivot_method v)
                      (Col (prefixRelatedTable q (prefixPivotTable h q c))) [operator, Undefined]) q)
      \<and> PivotHelpers_wherePivot h q v (Callback f) operator val
        = Inl (TypeError ''column.includes is not a function'')
      \<and> wherePivot_forwarded h q (Col c) operator val = Inr (Col (prefixPivotTable h q c), [operator]))
   \<and> (val = Undefined \<and> operator = Undefined \<longrightarrow>
      PivotHelpers_wherePivot h q v k operator val = query_method (wherePivot_method v) q k []
      \<and> PivotHelpers_wherePivot h q v (Col c) operator val
        = Inr (push (Predicate (wherePivot_method v)
                      (Col (prefixRelatedTable q c)) [Undefined, Undefined]) q)
      \<and> wherePivot_forwarded h q k operator val = Inr (k, []))"
proof (intro conjI impI)
  assume value_given: "val \<noteq> Undefined"
  then have fw: "wherePivot_forwarded h q (Col c) operator val
                   = Inr (Col (prefixPivotTable h q c), [operator, val])"
    by (simp add: wherePivot_forwarded_def)
  then show "wherePivot_forwarded h q (Col c) operator val
               = Inr (Col (prefixPivotTable h q c), [operator, val])" .
  from fw show "PivotHelpers_wherePivot h q v (Col c) operator val
        = query_method (wherePivot_method v) q (Col (prefixPivotTable h q c)) [operator, val]"
    by (simp add: PivotHelpers_wherePivot_def)
  from fw show "PivotHelpers_wherePivot h q v (Col c) operator val
        = Inr (push (Predicate (wherePivot_method v)
                      (Col (prefixRelatedTable q (prefixPivotTable h q c))) [operator, val]) q)"
    by (simp add: PivotHelpers_wherePivot_def query_method_where_Col arg_def)
  from value_given show "PivotHelpers_wherePivot h q v (Callback f) operator val
        = Inl (TypeError ''column.includes is not a function'')"
    by (simp add: PivotHelpers_wherePivot_def wherePivot_forwarded_def)
next
  assume operator_only: "val = Undefined \<and> operator \<noteq> Undefined"
  then have fw: "wherePivot_forwarded h q (Col c) operator val
                   = Inr (Col (prefixPivotTable h q c), [operator])"
    by (simp add: wherePivot_forwarded_def)
  then show "wherePivot_forwarded h q (Col c) operator val
               = Inr (Col (prefixPivotTable h q c), [operator])" .
  from fw show "PivotHelpers_wherePivot h q v (Col c) operator val
        = query_method (wherePivot_method v) q (Col (prefixPivotTable h q c)) [operator]"
    by (simp add: PivotHelpers_wherePivot_def)
  from fw show "PivotHelpers_wherePivot h q v (Col c) operator val
        = Inr (push (Predicate (wherePivot_method v)
                      (Col (prefixRelatedTable q (prefixPivotTable h q c))) [operator, Undefined]) q)"
    by (simp add: PivotHelpers_wherePivot_def query_method_where_Col arg_def)
  from operator_only show "PivotHelpers_wherePivot h q v (Callback f) operator val
        = Inl (TypeError ''column.includes is not a function'')"
    by (simp add: PivotHelpers_wherePivot_def wherePivot_forwarded_def)
next
  assume key_only: "val = Undefined \<and> operator = Undefined"
  then have fw: "wherePivot_forwarded h q k' operator val = Inr (k', [])" for k'
    by (simp add: wherePivot_forwarded_def)
  from fw show "wherePivot_forwarded h q k operator val = Inr (k, [])" .
  from fw show "PivotHelpers_wherePivot h q v k operator val
        = query_method (wherePivot_method v) q k []"
    by (simp add: PivotHelpers_wherePivot_def)
  from fw show "PivotHelpers_wherePivot h q v (Col c) operator val
        = Inr (push (Predicate (wherePivot_method v)
                      (Col (prefixRelatedTable q c)) [Undefined, Undefined]) q)"
    by (simp add: PivotHelpers_wherePivot_def query_method_where_Col arg_def)
qed

text \<open>
  The three shapes for the column \<open>status\<close> on the builder that joins, under the
  variations \<open>and\<close> and \<open>orNot\<close>: the pivot table qualifies the column in the shapes
  with a value or an operator, and does not in the one-argument shape, where the
  builder's own method qualifies it with the related table.
\<close>

theorem wherePivot_call_shapes_witness:
  "PivotHelpers_wherePivot pivotHelpers_of_builder skills_builder V_and (Col ''status'') (Str ''='') (Str ''active'')
     = Inr (push (Predicate ''where'' (Col ''skill_user.status'') [Str ''='', Str ''active'']) skills_builder)
   \<and> PivotHelpers_wherePivot pivotHelpers_of_builder skills_builder V_orNot (Col ''status'') (Str ''active'') Undefined
     = Inr (push (Predicate ''orWhereNot'' (Col ''skill_user.status'') [Str ''active'', Undefined]) skills_builder)
   \<and> PivotHelpers_wherePivot pivotHelpers_of_builder skills_builder V_and (Col ''status'') Undefined Undefined
     = Inr (push (Predicate ''where'' (Col ''skills.status'') [Undefined, Undefined]) skills_builder)
   \<and> wherePivot_forwarded pivotHelpers_of_builder skills_builder (Col ''status'') (Str ''='') (Str ''active'')
     = Inr (Col ''skill_user.status'', [Str ''='', Str ''active''])
   \<and> wherePivot_forwarded pivotHelpers_of_builder skills_builder (Col ''status'') Undefined Undefined
     = Inr (Col ''status'', [])
   \<and> wherePivot_forwarded pivotHelpers_of_builder skills_builder (Callback 0) Undefined Undefined
     = Inr (Callback 0, [])"
proof -
  have p: "prefixPivotTable pivotHelpers_of_builder skills_builder ''status'' = ''skill_user.status''"
    by code_simp
  have r: "prefixRelatedTable skills_builder ''skill_user.status'' = ''skill_user.status''"
          "prefixRelatedTable skills_builder ''status'' = ''skills.status''"
    by code_simp+
  have n: "Str ''active'' \<noteq> Undefined" "Str ''='' \<noteq> Undefined" by simp_all
  have a: "PivotHelpers_wherePivot pivotHelpers_of_builder skills_builder V_and (Col ''status'') (Str ''='') (Str ''active'')
        = Inr (push (Predicate (wherePivot_method V_and)
                      (Col (prefixRelatedTable skills_builder
                             (prefixPivotTable pivotHelpers_of_builder skills_builder ''status'')))
                      [Str ''='', Str ''active'']) skills_builder)"
    and a': "wherePivot_forwarded pivotHelpers_of_builder skills_builder (Col ''status'') (Str ''='') (Str ''active'')
        = Inr (Col (prefixPivotTable pivotHelpers_of_builder skills_builder ''status''), [Str ''='', Str ''active''])"
    using wherePivot_call_shapes [where val = "Str ''active''" and h = pivotHelpers_of_builder
        and q = skills_builder and c = "''status''" and operator = "Str ''=''" and v = V_and] n
    by blast+
  have b: "PivotHelpers_wherePivot pivotHelpers_of_builder skills_builder V_orNot (Col ''status'') (Str ''active'') Undefined
        = Inr (push (Predicate (wherePivot_method V_orNot)
                      (Col (prefixRelatedTable skills_builder
                             (prefixPivotTable pivotHelpers_of_builder skills_builder ''status'')))
                      [Str ''active'', Undefined]) skills_builder)"
    using wherePivot_call_shapes [where val = Undefined and h = pivotHelpers_of_builder
        and q = skills_builder and c = "''status''" and operator = "Str ''active''" and v = V_orNot] n
    by blast
  have c: "PivotHelpers_wherePivot pivotHelpers_of_builder skills_builder V_and (Col ''status'') Undefined Undefined
        = Inr (push (Predicate (wherePivot_method V_and)
                      (Col (prefixRelatedTable skills_builder ''status'')) [Undefined, Undefined]) skills_builder)"
    and c': "wherePivot_forwarded pivotHelpers_of_builder skills_builder (Col ''status'') Undefined Undefined
        = Inr (Col ''status'', [])"
    using wherePivot_call_shapes [where val = Undefined and operator = Undefined and h = pivotHelpers_of_builder
        and q = skills_builder and k = "Col ''status''" and c = "''status''" and v = V_and]
    by blast+
  have d: "wherePivot_forwarded pivotHelpers_of_builder skills_builder (Callback 0) Undefined Undefined
        = Inr (Callback 0, [])"
    using wherePivot_call_shapes [where val = Undefined and operator = Undefined and h = pivotHelpers_of_builder
        and q = skills_builder and k = "Callback 0"]
    by blast
  show ?thesis by (simp add: a a' b c c' d p r)
qed

end
